theory Spec2Isabelle
  imports Complex_Main
begin

section \<open>Strings\<close>

text \<open>
  Strings of the program are modelled as \<^typ>\<open>string\<close> restricted to ASCII: the
  catalog labels, the produce keys and the answers the identification prompt asks for
  are plain ASCII names. On that domain \<open>String.prototype.toLowerCase\<close> maps the
  letters A-Z to a-z character by character, \<open>trim\<close> removes the white space
  characters TAB, LF, VT, FF, CR and SPACE from both ends, and \<open>includes\<close> is
  the test for a contiguous substring.
\<close>

definition toLowerCase_char :: "char \<Rightarrow> char" where
  "toLowerCase_char c =
     (case map_of (zip ''ABCDEFGHIJKLMNOPQRSTUVWXYZ'' ''abcdefghijklmnopqrstuvwxyz'') c of
        Some l \<Rightarrow> l
      | None \<Rightarrow> c)"

definition toLowerCase :: "string \<Rightarrow> string" where
  "toLowerCase s = map toLowerCase_char s"

definition is_white_space :: "char \<Rightarrow> bool" where
  "is_white_space c \<longleftrightarrow>
     c \<in> set [CHR 0x09, CHR 0x0A, CHR 0x0B, CHR 0x0C, CHR 0x0D, CHR '' '']"

definition trim :: "string \<Rightarrow> string" where
  "trim s = rev (dropWhile is_white_space (rev (dropWhile is_white_space s)))"

fun startsWith :: "string \<Rightarrow> string \<Rightarrow> bool" where
  "startsWith s [] = True"
| "startsWith [] (q # qs) = False"
| "startsWith (c # cs) (q # qs) = (c = q \<and> startsWith cs qs)"

fun includes' :: "string \<Rightarrow> string \<Rightarrow> bool" where
  "includes' [] q = (q = [])"
| "includes' (c # cs) q = (startsWith (c # cs) q \<or> includes' cs q)"


section \<open>The produce catalog\<close>

text \<open>
  \<open>ProduceItem\<close> of \<open>types.ts\<close>. The field \<open>value\<close> is the stable key; it is
  written \<open>value'\<close> here. The catalog \<open>PRODUCE\<close> itself lives in
  \<open>constants.ts\<close>; every function below that reads it takes it as its first
  argument.
\<close>

record ProduceItem =
  value' :: string
  label :: string
  icon :: string

type_synonym ProduceKey = string

text \<open>
  Modelled from the spec: \<open>constants.ts\<close> (the \<open>PRODUCE\<close> table) is not among the
  sources. This sample catalog has the shape the spec gives (ordered entries of key,
  label and icon; the key \<open>apple\<close> with label \<open>Apple\<close>, and \<open>banana\<close>) and is used
  only to evaluate the functions at concrete inputs.
\<close>

definition PRODUCE_sample :: "ProduceItem list" where
  "PRODUCE_sample =
     [\<lparr>value' = ''apple'', label = ''Apple'', icon = ''A''\<rparr>,
      \<lparr>value' = ''banana'', label = ''Banana'', icon = ''B''\<rparr>,
      \<lparr>value' = ''tomato'', label = ''Tomato (Roma)'', icon = ''T''\<rparr>]"


section \<open>AI Gateway: identifyProduce\<close>

text \<open>
  A JavaScript \<open>Error\<close> carries its message. The only errors the gateway lets out are
  the ones its \<open>catch\<close> blocks construct.
\<close>

datatype js_error = Error string

text \<open>
  \<open>identifyProduce\<close> (geminiService, lines 7-42). The argument \<open>response\<close> is what
  \<open>ai.models.generateContent\<close> gave: \<open>None\<close> when the call rejected (or the
  response carried no text, so that \<open>response.text.trim()\<close> throws inside the
  \<open>try\<close>), \<open>Some text\<close> otherwise. Lines 27-36 are the body of the \<open>try\<close>.
\<close>

definition identifyProduce :: "ProduceItem list \<Rightarrow> string option \<Rightarrow> js_error + string" where
  "identifyProduce PRODUCE response =
     (case response of
        None \<Rightarrow> Inl (Error ''Failed to identify produce from Gemini API.'')
      | Some text \<Rightarrow>
          (let detectedProduceName = trim text in
           if toLowerCase detectedProduceName = ''none'' then Inr ''None''
           else
             (case find (\<lambda>p. includes' (toLowerCase (label p)) (toLowerCase detectedProduceName))
                     PRODUCE of
                Some foundProduce \<Rightarrow> Inr (value' foundProduce)
              | None \<Rightarrow> Inr '''')))"

section \<open>AI Gateway: getRipenessPrediction\<close>

text \<open>
  A number as \<open>JSON.parse\<close> can return it: a finite value, modelled by the real the
  double denotes (the two zeros are one value here; neither a comparison nor
  \<open>toFixed\<close> tells them apart), or one of the infinities, which \<open>JSON.parse\<close>
  returns for a literal beyond the range of the doubles such as \<open>1e999\<close>. There is
  no JSON literal for NaN.
\<close>

datatype number = Finite real | Infinity | MinusInfinity

text \<open>
  The value \<open>JSON.parse\<close> returns. The list of an object holds its own properties,
  each name once, as the parsed object has them.
\<close>

datatype json =
    JNull
  | JBoolean bool
  | JNumber number
  | JString string
  | JArray "json list"
  | JObject "(string \<times> json) list"

datatype js_type = T_undefined | T_object | T_boolean | T_number | T_string

text \<open>\<open>typeof\<close>; \<open>None\<close> is \<open>undefined\<close>. Both \<open>null\<close> and arrays are \<open>'object'\<close>.\<close>

fun typeof :: "json option \<Rightarrow> js_type" where
  "typeof None = T_undefined"
| "typeof (Some JNull) = T_object"
| "typeof (Some (JBoolean b)) = T_boolean"
| "typeof (Some (JNumber n)) = T_number"
| "typeof (Some (JString s)) = T_string"
| "typeof (Some (JArray xs)) = T_object"
| "typeof (Some (JObject kvs)) = T_object"

text \<open>
  Reading the property \<open>k\<close> of a value other than \<open>null\<close>: an object gives the
  property or \<open>undefined\<close>; numbers, strings, booleans and arrays have none of the
  six names the validation reads.
\<close>

fun property :: "json \<Rightarrow> string \<Rightarrow> json option" where
  "property (JObject kvs) k = map_of kvs k"
| "property v k = None"

text \<open>
  What \<open>generateContent\<close> followed by \<open>JSON.parse(response.text.trim())\<close> gives:
  the call rejects, the text is not JSON (\<open>JSON.parse\<close> throws), or the text parses
  to a value.
\<close>

datatype prediction_response = CallRejected | TextNotJSON | TextJSON json

text \<open>
  The condition of the \<open>if\<close> on line 118 ("Basic validation"), for a \<open>result\<close>
  that is not \<open>null\<close>.
\<close>

definition invalid_structure :: "json \<Rightarrow> bool" where
  "invalid_structure result \<longleftrightarrow>
     typeof (property result ''days'') \<noteq> T_number \<or>
     typeof (property result ''status'') \<noteq> T_string \<or>
     typeof (property result ''recommendation'') \<noteq> T_string \<or>
     typeof (property result ''infection_details'') \<noteq> T_object \<or>
     typeof (property result ''isPartlyMissing'') \<noteq> T_boolean \<or>
     typeof (property result ''missingPartDescription'') \<noteq> T_string"

text \<open>
  \<open>getRipenessPrediction\<close> (geminiService, lines 45-128). Everything from the call
  to the \<open>return\<close> is inside one \<open>try\<close>: a rejected call, the \<open>SyntaxError\<close> of
  \<open>JSON.parse\<close>, the \<open>TypeError\<close> of reading \<open>days\<close> from \<open>null\<close> and the
  \<open>Error("Invalid JSON structure from API.")\<close> thrown on line 119 all reach the
  \<open>catch\<close> on line 124, which throws the one error of line 126.
\<close>

definition getRipenessPrediction :: "prediction_response \<Rightarrow> js_error + json" where
  "getRipenessPrediction response =
     (case response of
        CallRejected \<Rightarrow> Inl (Error ''Failed to get prediction from Gemini API.'')
      | TextNotJSON \<Rightarrow> Inl (Error ''Failed to get prediction from Gemini API.'')
      | TextJSON result \<Rightarrow>
          if result = JNull then Inl (Error ''Failed to get prediction from Gemini API.'')
          else if invalid_structure result
          then Inl (Error ''Failed to get prediction from Gemini API.'')
          else Inr result)"


section \<open>Interaction Controller\<close>

record File =
  name :: string
  type' :: string

record InteractionState =
  selectedProduceKey :: ProduceKey
  imageFile :: "File option"
  imagePreviewUrl :: "string option"
  prediction :: "json option"
  isLoading :: bool
  loadingText :: string
  error :: "string option"
  isCameraOpen :: bool
  suggestedProduceKey :: "ProduceKey option"
  searchText :: string
  isSearchFocused :: bool

text \<open>
  A handler is an \<open>async\<close> function closed over the state of the render that created
  it. It is modelled by the sequence of its effects, in program order: the calls of the
  state setters and the calls that leave the component (\<open>fileToBase64\<close> and the two
  gateway operations, with their arguments). The state after the handler is the state
  before it with the setter calls applied in order.
\<close>

datatype effect =
    SetSelectedProduceKey ProduceKey
  | SetImageFile "File option"
  | SetImagePreviewUrl "string option"
  | SetPrediction "json option"
  | SetIsLoading bool
  | SetLoadingText string
  | SetError "string option"
  | SetIsCameraOpen bool
  | SetSuggestedProduceKey "ProduceKey option"
  | SetSearchText string
  | SetIsSearchFocused bool
  | CallFileToBase64 File
  | CallIdentifyProduce string string
  | CallGetRipenessPrediction string string string

fun apply_effect :: "InteractionState \<Rightarrow> effect \<Rightarrow> InteractionState" where
  "apply_effect s (SetSelectedProduceKey k) = s\<lparr>selectedProduceKey := k\<rparr>"
| "apply_effect s (SetImageFile f) = s\<lparr>imageFile := f\<rparr>"
| "apply_effect s (SetImagePreviewUrl u) = s\<lparr>imagePreviewUrl := u\<rparr>"
| "apply_effect s (SetPrediction p) = s\<lparr>prediction := p\<rparr>"
| "apply_effect s (SetIsLoading b) = s\<lparr>isLoading := b\<rparr>"
| "apply_effect s (SetLoadingText t) = s\<lparr>loadingText := t\<rparr>"
| "apply_effect s (SetError e) = s\<lparr>error := e\<rparr>"
| "apply_effect s (SetIsCameraOpen b) = s\<lparr>isCameraOpen := b\<rparr>"
| "apply_effect s (SetSuggestedProduceKey k) = s\<lparr>suggestedProduceKey := k\<rparr>"
| "apply_effect s (SetSearchText t) = s\<lparr>searchText := t\<rparr>"
| "apply_effect s (SetIsSearchFocused b) = s\<lparr>isSearchFocused := b\<rparr>"
| "apply_effect s (CallFileToBase64 f) = s"
| "apply_effect s (CallIdentifyProduce b m) = s"
| "apply_effect s (CallGetRipenessPrediction b m l) = s"

definition run :: "InteractionState \<Rightarrow> effect list \<Rightarrow> InteractionState" where
  "run s effects = foldl apply_effect s effects"

fun is_identify_call :: "effect \<Rightarrow> bool" where
  "is_identify_call (CallIdentifyProduce b m) = True"
| "is_identify_call e = False"

fun is_prediction_call :: "effect \<Rightarrow> bool" where
  "is_prediction_call (CallGetRipenessPrediction b m l) = True"
| "is_prediction_call e = False"

definition is_gateway_call :: "effect \<Rightarrow> bool" where
  "is_gateway_call e \<longleftrightarrow> is_identify_call e \<or> is_prediction_call e"

fun is_set_loading :: "effect \<Rightarrow> bool" where
  "is_set_loading (SetIsLoading b) = True"
| "is_set_loading e = False"

text \<open>
  What the world answers during one run of a handler: the result of \<open>fileToBase64\<close>
  (\<open>None\<close> when the \<open>FileReader\<close> fails and the promise rejects), the text of the
  identification response and the outcome of the prediction request. A handler makes
  each of the three calls at most once.
\<close>

record outcomes =
  fileToBase64_result :: "string option"
  identify_response :: "string option"
  prediction_response :: prediction_response

text \<open>How the promise of an \<open>async\<close> handler settles.\<close>

datatype completion = Resolved | Rejected

definition resetAnalysisState :: "effect list" where
  "resetAnalysisState = [SetPrediction None, SetError None, SetSuggestedProduceKey None]"

text \<open>
  \<open>continueAnalysis\<close> (App, lines 94-115). The \<open>try\<close>/\<open>catch\<close>/\<open>finally\<close>
  catches whatever \<open>getRipenessPrediction\<close> throws, so the promise always resolves.
\<close>

definition continueAnalysis ::
  "ProduceItem list \<Rightarrow> ProduceKey \<Rightarrow> string \<Rightarrow> string \<Rightarrow> outcomes \<Rightarrow> effect list" where
  "continueAnalysis PRODUCE produceKey imageBase64 mimeType w =
     (case find (\<lambda>p. value' p = produceKey) PRODUCE of
        None \<Rightarrow> [SetError (Some ''Invalid produce selected for analysis.''), SetIsLoading False]
      | Some produce \<Rightarrow>
          [SetIsLoading True, SetError None, SetLoadingText ''Analyzing ripeness...'',
           CallGetRipenessPrediction imageBase64 mimeType (label produce)] @
          (case getRipenessPrediction (prediction_response w) of
             Inr result \<Rightarrow> [SetPrediction (Some result)]
           | Inl err \<Rightarrow>
               [SetError (Some
                 ''Failed to complete analysis. The model may be unavailable. Please try again later.'')]) @
          [SetIsLoading False])"

text \<open>
  \<open>startAnalysis\<close> (App, lines 118-152). \<open>fileToAnalyze\<close> is the optional
  argument; \<open>s\<close> is the state the handler closed over. The guard of lines 120-123 is
  outside the \<open>try\<close> and does not throw; everything after it is inside, so the
  promise always resolves. The empty string is falsy in the test of line 139.
\<close>

definition startAnalysis_catch :: "effect list" where
  "startAnalysis_catch =
     [SetError (Some ''An AI error occurred during identification. Please try again.''),
      SetIsLoading False]"

definition startAnalysis ::
  "ProduceItem list \<Rightarrow> InteractionState \<Rightarrow> File option \<Rightarrow> outcomes \<Rightarrow> effect list" where
  "startAnalysis PRODUCE s fileToAnalyze w =
     (let currentFile = (case fileToAnalyze of Some f \<Rightarrow> Some f | None \<Rightarrow> imageFile s);
          selectedProduce = find (\<lambda>f. value' f = selectedProduceKey s) PRODUCE
      in case (currentFile, selectedProduce) of
           (Some file, Some produce) \<Rightarrow>
             [SetIsLoading True] @ resetAnalysisState @
             [SetLoadingText ''Identifying produce...'', CallFileToBase64 file] @
             (case fileToBase64_result w of
                None \<Rightarrow> startAnalysis_catch
              | Some base64Image \<Rightarrow>
                  [CallIdentifyProduce base64Image (type' file)] @
                  (case identifyProduce PRODUCE (identify_response w) of
                     Inl err \<Rightarrow> startAnalysis_catch
                   | Inr detectedProduceValue \<Rightarrow>
                       if detectedProduceValue = ''None'' then
                         [SetError (Some
                            ''No recognizable fruit or vegetable was found. Please try another photo.''),
                          SetIsLoading False]
                       else if detectedProduceValue \<noteq> '''' \<and>
                               detectedProduceValue \<noteq> selectedProduceKey s then
                         [SetSuggestedProduceKey (Some detectedProduceValue), SetIsLoading False]
                       else
                         continueAnalysis PRODUCE (selectedProduceKey s) base64Image
                           (type' file) w))
         | _ \<Rightarrow> [SetError (Some ''Please select a produce item and an image first.'')])"

text \<open>
  \<open>handleSuggestion\<close> (App, lines 268-279). No \<open>try\<close> surrounds the
  \<open>await fileToBase64(imageFile)\<close> on line 277: when it rejects, the handler's
  promise rejects after the effects made so far. \<open>useSuggestion && suggestedProduceKey\<close>
  is truthy when the flag is set and the suggestion is a non-empty string.
\<close>

definition handleSuggestion ::
  "ProduceItem list \<Rightarrow> InteractionState \<Rightarrow> bool \<Rightarrow> outcomes \<Rightarrow> effect list \<times> completion" where
  "handleSuggestion PRODUCE s useSuggestion w =
     (case imageFile s of
        None \<Rightarrow> ([], Resolved)
      | Some file \<Rightarrow>
          (let accepted = (case suggestedProduceKey s of
                             Some k \<Rightarrow> if useSuggestion \<and> k \<noteq> '''' then Some k else None
                           | None \<Rightarrow> None);
               produceToAnalyze = (case accepted of Some k \<Rightarrow> k | None \<Rightarrow> selectedProduceKey s);
               before = (case accepted of Some k \<Rightarrow> [SetSelectedProduceKey k] | None \<Rightarrow> []) @
                        [SetSuggestedProduceKey None, CallFileToBase64 file]
           in case fileToBase64_result w of
                None \<Rightarrow> (before, Rejected)
              | Some base64Image \<Rightarrow>
                  (before @ continueAnalysis PRODUCE produceToAnalyze base64Image (type' file) w,
                   Resolved)))"

text \<open>\<open>filteredProduce\<close> (App, lines 221-225).\<close>

definition filteredProduce :: "ProduceItem list \<Rightarrow> InteractionState \<Rightarrow> ProduceItem list" where
  "filteredProduce PRODUCE s =
     (if \<not> isSearchFocused s then []
      else let lowercasedQuery = toLowerCase (searchText s)
           in filter (\<lambda>p. includes' (toLowerCase (label p)) lowercasedQuery) PRODUCE)"

text \<open>
  The comparisons of a number with a finite constant: \<open>days > c\<close>, \<open>days >= c\<close>
  and \<open>days <= c\<close>.
\<close>

fun gt :: "number \<Rightarrow> real \<Rightarrow> bool" where
  "gt (Finite x) c = (x > c)"
| "gt Infinity c = True"
| "gt MinusInfinity c = False"

fun ge :: "number \<Rightarrow> real \<Rightarrow> bool" where
  "ge (Finite x) c = (x \<ge> c)"
| "ge Infinity c = True"
| "ge MinusInfinity c = False"

fun le :: "number \<Rightarrow> real \<Rightarrow> bool" where
  "le (Finite x) c = (x \<le> c)"
| "le Infinity c = False"
| "le MinusInfinity c = True"

text \<open>
  \<open>Number.prototype.toFixed(1)\<close>. A number that is not finite is written by
  \<open>Number::toString\<close>: \<open>Infinity\<close> or \<open>-Infinity\<close>. A finite number is written as
  its sign followed by its magnitude: a magnitude of \<open>10^21\<close> or more by
  \<open>Number::toString\<close>, a smaller one as the integer \<open>n\<close> for which \<open>n / 10\<close> is
  closest to it (the larger one on a tie), with one digit after the point.

  \<open>Number::toString\<close> writes a magnitude of \<open>10^21\<close> or more in exponent notation
  (\<open>1e+21\<close>), with the fewest digits that read back as the same double. Those digits
  depend on the binary representation of the number, which the reals do not carry, so
  the function is the parameter \<open>toString\<close> of \<open>toFixed1\<close> and of \<open>getDaysText\<close>.
\<close>

definition digit :: "nat \<Rightarrow> char" where
  "digit n = ''0123456789'' ! n"

fun decimal :: "nat \<Rightarrow> string" where
  "decimal n = (if n < 10 then [digit n] else decimal (n div 10) @ [digit (n mod 10)])"

definition toFixed1 :: "(real \<Rightarrow> string) \<Rightarrow> number \<Rightarrow> string" where
  "toFixed1 toString x =
     (case x of
        Infinity \<Rightarrow> ''Infinity''
      | MinusInfinity \<Rightarrow> ''-Infinity''
      | Finite v \<Rightarrow>
          (let s = (if v < 0 then ''-'' else '''');
               a = \<bar>v\<bar>
           in if a \<ge> 10 ^ 21 then s @ toString a
              else let n = nat \<lfloor>a * 10 + 1 / 2\<rfloor>
                   in s @ decimal (n div 10) @ ''.'' @ [digit (n mod 10)]))"

text \<open>\<open>getDaysText\<close> (App, lines 282-286).\<close>

definition getDaysText :: "(real \<Rightarrow> string) \<Rightarrow> number \<Rightarrow> string" where
  "getDaysText toString days =
     (if gt days 1 then toFixed1 toString days @ '' days''
      else if ge days 0 \<and> le days 1 then toFixed1 toString days @ '' days (Ready!)''
      else toFixed1 toString days @ '' days (Past Peak)'')"

declare decimal.simps [simp del]


section \<open>Observing a run\<close>

text \<open>
  The prediction calls of a run, the state at the moment of the first one (the setter
  calls made before it), and the setter calls that raise a suggestion, show an error
  or store a prediction.
\<close>

definition prediction_calls :: "effect list \<Rightarrow> effect list" where
  "prediction_calls effects = filter is_prediction_call effects"

definition gateway_calls :: "effect list \<Rightarrow> effect list" where
  "gateway_calls effects = filter is_gateway_call effects"

definition before_prediction_call :: "effect list \<Rightarrow> effect list" where
  "before_prediction_call effects = takeWhile (\<lambda>e. \<not> is_prediction_call e) effects"

fun raises_suggestion :: "effect \<Rightarrow> bool" where
  "raises_suggestion (SetSuggestedProduceKey (Some k)) = True"
| "raises_suggestion e = False"

fun shows_error :: "effect \<Rightarrow> bool" where
  "shows_error (SetError (Some m)) = True"
| "shows_error e = False"

fun stores_prediction :: "effect \<Rightarrow> bool" where
  "stores_prediction (SetPrediction (Some r)) = True"
| "stores_prediction e = False"


section \<open>The words of the specification\<close>

text \<open>
  "The label contains the input case-insensitively": the input occurs in the label as
  a contiguous piece, letter case apart.
\<close>

definition contains_ci :: "string \<Rightarrow> string \<Rightarrow> bool" where
  "contains_ci lbl input \<longleftrightarrow> (\<exists>u v. toLowerCase lbl = u @ toLowerCase input @ v)"

text \<open>
  "The value to one decimal place": a text of the form \<open>-ddd.d\<close> (the sign optional,
  the whole part without a leading zero unless it is \<open>0\<close>) that denotes a tenth no
  further than half a tenth from the value.
\<close>

definition digit_value :: "char \<Rightarrow> nat option" where
  "digit_value c = map_of (zip ''0123456789'' [0, 1, 2, 3, 4, 5, 6, 7, 8, 9]) c"

fun digits_value :: "string \<Rightarrow> nat \<Rightarrow> nat option" where
  "digits_value [] acc = Some acc"
| "digits_value (c # cs) acc =
     (case digit_value c of None \<Rightarrow> None | Some v \<Rightarrow> digits_value cs (10 * acc + v))"

definition whole_number :: "string \<Rightarrow> nat option" where
  "whole_number s =
     (if s = [] \<or> (hd s = CHR ''0'' \<and> s \<noteq> ''0'') then None else digits_value s 0)"

definition one_decimal_value :: "string \<Rightarrow> real option" where
  "one_decimal_value t =
     (let negative = (t \<noteq> [] \<and> hd t = CHR ''-'');
          body = (if negative then tl t else t)
      in if length body < 3 \<or> body ! (length body - 2) \<noteq> CHR ''.'' then None
         else case (whole_number (take (length body - 2) body), digit_value (last body)) of
                (Some i, Some f) \<Rightarrow>
                  Some ((if negative then - 1 else 1) * (real i + real f / 10))
              | _ \<Rightarrow> None)"

definition to_one_decimal_place :: "real \<Rightarrow> string \<Rightarrow> bool" where
  "to_one_decimal_place x t \<longleftrightarrow>
     (case one_decimal_value t of None \<Rightarrow> False | Some r \<Rightarrow> \<bar>r - x\<bar> \<le> 1 / 20)"

text \<open>
  The required schema of a prediction response (section 6 of the specification):
  an object with \<open>days\<close> (number), \<open>status\<close>, \<open>recommendation\<close> (strings),
  \<open>infection_details\<close> (an object with the strings \<open>type\<close>, \<open>name\<close> and
  \<open>cause\<close>), \<open>isPartlyMissing\<close> (boolean) and \<open>missingPartDescription\<close>
  (string).
\<close>

fun is_number :: "json option \<Rightarrow> bool" where
  "is_number (Some (JNumber n)) = True"
| "is_number v = False"

fun is_string :: "json option \<Rightarrow> bool" where
  "is_string (Some (JString s)) = True"
| "is_string v = False"

fun is_boolean :: "json option \<Rightarrow> bool" where
  "is_boolean (Some (JBoolean b)) = True"
| "is_boolean v = False"

fun infection_details_schema :: "json option \<Rightarrow> bool" where
  "infection_details_schema (Some (JObject kvs)) \<longleftrightarrow>
     is_string (map_of kvs ''type'') \<and> is_string (map_of kvs ''name'') \<and>
     is_string (map_of kvs ''cause'')"
| "infection_details_schema v \<longleftrightarrow> False"

fun required_schema :: "json \<Rightarrow> bool" where
  "required_schema (JObject kvs) \<longleftrightarrow>
     is_number (map_of kvs ''days'') \<and>
     is_string (map_of kvs ''status'') \<and>
     is_string (map_of kvs ''recommendation'') \<and>
     infection_details_schema (map_of kvs ''infection_details'') \<and>
     is_boolean (map_of kvs ''isPartlyMissing'') \<and>
     is_string (map_of kvs ''missingPartDescription'')"
| "required_schema v \<longleftrightarrow> False"

text \<open>
  The top level of that schema alone: the six fields are present, five of them of
  their type, and \<open>infection_details\<close> is anything that is not a number, a string
  or a boolean (an object, an array or \<open>null\<close>), whatever it holds.
\<close>

fun is_object_like :: "json option \<Rightarrow> bool" where
  "is_object_like (Some (JObject kvs)) = True"
| "is_object_like (Some (JArray xs)) = True"
| "is_object_like (Some JNull) = True"
| "is_object_like v = False"

fun top_level_schema :: "json \<Rightarrow> bool" where
  "top_level_schema (JObject kvs) \<longleftrightarrow>
     is_number (map_of kvs ''days'') \<and>
     is_string (map_of kvs ''status'') \<and>
     is_string (map_of kvs ''recommendation'') \<and>
     is_object_like (map_of kvs ''infection_details'') \<and>
     is_boolean (map_of kvs ''isPartlyMissing'') \<and>
     is_string (map_of kvs ''missingPartDescription'')"
| "top_level_schema v \<longleftrightarrow> False"


section \<open>Sample inputs\<close>

definition photo :: File where
  "photo = \<lparr>name = ''photo.jpg'', type' = ''image/jpeg''\<rparr>"

text \<open>An image is present, \<open>apple\<close> is selected, nothing else has happened.\<close>

definition state_ready :: InteractionState where
  "state_ready =
     \<lparr>selectedProduceKey = ''apple'', imageFile = Some photo,
      imagePreviewUrl = Some ''blob:photo'', prediction = None, isLoading = False,
      loadingText = ''Analyzing...'', error = None, isCameraOpen = False,
      suggestedProduceKey = None, searchText = ''Apple'', isSearchFocused = False\<rparr>"

text \<open>The same with the suggestion \<open>banana\<close> pending.\<close>

definition state_pending :: InteractionState where
  "state_pending = state_ready\<lparr>suggestedProduceKey := Some ''banana'',
     loadingText := ''Identifying produce...''\<rparr>"

text \<open>A response that meets the schema, and one whose \<open>infection_details\<close> is empty.\<close>

definition result_ok :: json where
  "result_ok = JObject
     [(''days'', JNumber (Finite 3)), (''status'', JString ''Unripe''),
      (''recommendation'', JString ''Wait''),
      (''infection_details'',
         JObject [(''type'', JString ''''), (''name'', JString ''''), (''cause'', JString '''')]),
      (''isPartlyMissing'', JBoolean False), (''missingPartDescription'', JString '''')]"

definition result_no_details :: json where
  "result_no_details = JObject
     [(''days'', JNumber (Finite 3)), (''status'', JString ''Unripe''),
      (''recommendation'', JString ''Wait''),
      (''infection_details'', JObject []),
      (''isPartlyMissing'', JBoolean False), (''missingPartDescription'', JString '''')]"

definition result_no_status :: json where
  "result_no_status = JObject
     [(''days'', JNumber (Finite 3)),
      (''recommendation'', JString ''Wait''),
      (''infection_details'',
         JObject [(''type'', JString ''''), (''name'', JString ''''), (''cause'', JString '''')]),
      (''isPartlyMissing'', JBoolean False), (''missingPartDescription'', JString '''')]"

text \<open>
  The response \<open>result_ok\<close> with \<open>"days": 1e999\<close>, which \<open>JSON.parse\<close> reads as
  \<open>Infinity\<close>.
\<close>

definition result_infinite_days :: json where
  "result_infinite_days = JObject
     [(''days'', JNumber Infinity), (''status'', JString ''Unripe''),
      (''recommendation'', JString ''Wait''),
      (''infection_details'',
         JObject [(''type'', JString ''''), (''name'', JString ''''), (''cause'', JString '''')]),
      (''isPartlyMissing'', JBoolean False), (''missingPartDescription'', JString '''')]"

text \<open>
  \<open>Number::toString\<close> at \<open>10^21\<close>, the one large magnitude evaluated below, where it
  gives \<open>1e+21\<close>.
\<close>

definition toString_sample :: "real \<Rightarrow> string" where
  "toString_sample x = ''1e+21''"

definition world :: "string option \<Rightarrow> string option \<Rightarrow> prediction_response \<Rightarrow> outcomes" where
  "world b t r = \<lparr>fileToBase64_result = b, identify_response = t, prediction_response = r\<rparr>"


section \<open>Properties\<close>

lemma startsWith_iff: "startsWith s q \<longleftrightarrow> (\<exists>v. s = q @ v)"
  by (induction s q rule: startsWith.induct) auto

lemma includes_iff: "includes' s q \<longleftrightarrow> (\<exists>u v. s = u @ q @ v)"
proof (induction s)
  case Nil
  show ?case by auto
next
  case (Cons c cs)
  note IH = Cons.IH
  show ?case
  proof
    assume "includes' (c # cs) q"
    then consider "startsWith (c # cs) q" | "includes' cs q" by auto
    then show "\<exists>u v. c # cs = u @ q @ v"
    proof cases
      case 1
      then obtain v where "c # cs = q @ v" by (auto simp: startsWith_iff)
      then have "c # cs = [] @ q @ v" by simp
      then show ?thesis by blast
    next
      case 2
      with IH obtain u v where "cs = u @ q @ v" by blast
      then have "c # cs = (c # u) @ q @ v" by simp
      then show ?thesis by blast
    qed
  next
    assume "\<exists>u v. c # cs = u @ q @ v"
    then obtain u v where uv: "c # cs = u @ q @ v" by blast
    show "includes' (c # cs) q"
    proof (cases u)
      case Nil
      with uv have "startsWith (c # cs) q" by (auto simp: startsWith_iff)
      then show ?thesis by simp
    next
      case (Cons a u')
      with uv have "cs = u' @ q @ v" by simp
      with IH have "includes' cs q" by blast
      then show ?thesis by simp
    qed
  qed
qed

lemma contains_ci_includes [code]:
  "contains_ci lbl input \<longleftrightarrow> includes' (toLowerCase lbl) (toLowerCase input)"
  by (simp add: contains_ci_def includes_iff)

lemma find_Some_holds: "find P xs = Some p \<Longrightarrow> p \<in> set xs \<and> P p"
  by (induction xs) (auto split: if_splits)

lemma find_None_none: "find P xs = None \<longleftrightarrow> (\<forall>x\<in>set xs. \<not> P x)"
  by (induction xs) auto


subsection \<open>identifyProduce\<close>

text \<open>
  Claim C4, as amended. For every successful underlying call, \<open>identifyProduce\<close>
  returns one of three things, decided by the answer with the surrounding white space
  removed: the literal \<open>None\<close> when the answer is "none" in any letter case; the key
  of a catalog entry whose label contains the answer case-insensitively, when there is
  such an entry; and the empty string when no catalog label contains the answer.
\<close>

theorem identifyProduce_result:
  "(toLowerCase (trim text) = ''none'' \<longrightarrow> identifyProduce PRODUCE (Some text) = Inr ''None'') \<and>
   (toLowerCase (trim text) \<noteq> ''none'' \<and> (\<exists>p\<in>set PRODUCE. contains_ci (label p) (trim text)) \<longrightarrow>
      (\<exists>p\<in>set PRODUCE. contains_ci (label p) (trim text) \<and>
         identifyProduce PRODUCE (Some text) = Inr (value' p))) \<and>
   (toLowerCase (trim text) \<noteq> ''none'' \<and> (\<forall>p\<in>set PRODUCE. \<not> contains_ci (label p) (trim text)) \<longrightarrow>
      identifyProduce PRODUCE (Some text) = Inr '''')"
proof (intro conjI impI)
  assume "toLowerCase (trim text) = ''none''"
  then show "identifyProduce PRODUCE (Some text) = Inr ''None''"
    by (simp add: identifyProduce_def)
next
  let ?P = "\<lambda>p. includes' (toLowerCase (label p)) (toLowerCase (trim text))"
  assume a: "toLowerCase (trim text) \<noteq> ''none'' \<and>
    (\<exists>p\<in>set PRODUCE. contains_ci (label p) (trim text))"
  then have "find ?P PRODUCE \<noteq> None"
    by (auto simp: find_None_none contains_ci_includes)
  then obtain p where p: "find ?P PRODUCE = Some p" by blast
  then have "p \<in> set PRODUCE" "?P p" by (auto dest: find_Some_holds)
  moreover from a p have "identifyProduce PRODUCE (Some text) = Inr (value' p)"
    by (simp add: identifyProduce_def)
  ultimately show "\<exists>p\<in>set PRODUCE. contains_ci (label p) (trim text) \<and>
         identifyProduce PRODUCE (Some text) = Inr (value' p)"
    by (auto simp: contains_ci_includes)
next
  let ?P = "\<lambda>p. includes' (toLowerCase (label p)) (toLowerCase (trim text))"
  assume a: "toLowerCase (trim text) \<noteq> ''none'' \<and>
    (\<forall>p\<in>set PRODUCE. \<not> contains_ci (label p) (trim text))"
  then have "find ?P PRODUCE = None"
    by (simp add: find_None_none contains_ci_includes)
  with a show "identifyProduce PRODUCE (Some text) = Inr ''''"
    by (simp add: identifyProduce_def)
qed

text \<open>
  The three cases on the sample catalog: " BANANA " resolves to \<open>banana\<close>, "None" to
  \<open>None\<close>, and "Durian", which no label contains, to the empty string.
\<close>

theorem identifyProduce_result_witness:
  "toLowerCase (trim ''BANANA '') \<noteq> ''none'' \<and>
   (\<exists>p\<in>set PRODUCE_sample. contains_ci (label p) (trim ''BANANA '')) \<and>
   (\<exists>p\<in>set PRODUCE_sample. contains_ci (label p) (trim ''BANANA '') \<and>
      identifyProduce PRODUCE_sample (Some ''BANANA '') = Inr (value' p)) \<and>
   toLowerCase (trim ''None'') = ''none'' \<and>
   identifyProduce PRODUCE_sample (Some ''None'') = Inr ''None'' \<and>
   toLowerCase (trim ''Durian'') \<noteq> ''none'' \<and>
   \<not> (\<exists>p\<in>set PRODUCE_sample. contains_ci (label p) (trim ''Durian'')) \<and>
   identifyProduce PRODUCE_sample (Some ''Durian'') = Inr ''''"
proof -
  have b1: "toLowerCase (trim ''BANANA '') \<noteq> ''none''" by code_simp
  have b2: "\<exists>p\<in>set PRODUCE_sample. contains_ci (label p) (trim ''BANANA '')" by code_simp
  have n1: "toLowerCase (trim ''None'') = ''none''" by code_simp
  have d1: "toLowerCase (trim ''Durian'') \<noteq> ''none''" by code_simp
  have d2: "\<forall>p\<in>set PRODUCE_sample. \<not> contains_ci (label p) (trim ''Durian'')"
    by code_simp
  from b1 b2 n1 d1 d2
    identifyProduce_result [of "''BANANA ''" PRODUCE_sample]
    identifyProduce_result [of "''None''" PRODUCE_sample]
    identifyProduce_result [of "''Durian''" PRODUCE_sample]
  show ?thesis by blast
qed

text \<open>
  Claim C4 as stated (the result is always a catalog key or \<open>None\<close>) fails: on the
  sample catalog the answer "Durian" gives the empty string, which is neither.
\<close>

theorem identifyProduce_outside_counterexample:
  "identifyProduce PRODUCE_sample (Some ''Durian'') = Inr '''' \<and>
   '''' \<noteq> ''None'' \<and> '''' \<notin> set (map value' PRODUCE_sample)"
  by code_simp


subsection \<open>Produce search\<close>

text \<open>
  Claim C9. While the search input has focus, \<open>filteredProduce\<close> is the catalog
  filtered by "the label contains the search text case-insensitively": exactly those
  entries, in catalog order. So the empty input gives the whole catalog and an input no
  label contains gives the empty list. Without focus the list is empty.
\<close>

theorem filteredProduce_spec:
  "filteredProduce PRODUCE s =
     (if isSearchFocused s then filter (\<lambda>p. contains_ci (label p) (searchText s)) PRODUCE else []) \<and>
   (isSearchFocused s \<and> searchText s = '''' \<longrightarrow> filteredProduce PRODUCE s = PRODUCE) \<and>
   (isSearchFocused s \<and> (\<forall>p\<in>set PRODUCE. \<not> contains_ci (label p) (searchText s)) \<longrightarrow>
      filteredProduce PRODUCE s = [])"
proof -
  have eq: "filteredProduce PRODUCE s =
     (if isSearchFocused s then filter (\<lambda>p. contains_ci (label p) (searchText s)) PRODUCE else [])"
    by (simp add: filteredProduce_def contains_ci_includes)
  have "contains_ci l ''''" for l
    by (auto simp: contains_ci_def toLowerCase_def intro: exI [of _ "[]"])
  then have full: "isSearchFocused s \<and> searchText s = '''' \<longrightarrow> filteredProduce PRODUCE s = PRODUCE"
    by (simp add: eq)
  have none: "isSearchFocused s \<and> (\<forall>p\<in>set PRODUCE. \<not> contains_ci (label p) (searchText s)) \<longrightarrow>
      filteredProduce PRODUCE s = []"
    by (simp add: eq filter_empty_conv)
  from eq full none show ?thesis by blast
qed

text \<open>
  On the sample catalog: "AN" finds Banana alone, the empty input finds everything,
  "kiwi" nothing, and without focus the list is empty.
\<close>

theorem filteredProduce_spec_witness:
  "isSearchFocused (state_ready\<lparr>isSearchFocused := True, searchText := ''AN''\<rparr>) \<and>
   filteredProduce PRODUCE_sample (state_ready\<lparr>isSearchFocused := True, searchText := ''AN''\<rparr>) =
     [\<lparr>value' = ''banana'', label = ''Banana'', icon = ''B''\<rparr>] \<and>
   searchText (state_ready\<lparr>isSearchFocused := True, searchText := ''''\<rparr>) = '''' \<and>
   filteredProduce PRODUCE_sample (state_ready\<lparr>isSearchFocused := True, searchText := ''''\<rparr>) =
     PRODUCE_sample \<and>
   \<not> (\<exists>p\<in>set PRODUCE_sample. contains_ci (label p) ''kiwi'') \<and>
   filteredProduce PRODUCE_sample (state_ready\<lparr>isSearchFocused := True, searchText := ''kiwi''\<rparr>) = [] \<and>
   \<not> isSearchFocused state_ready \<and> filteredProduce PRODUCE_sample state_ready = []"
proof -
  let ?an = "state_ready\<lparr>isSearchFocused := True, searchText := ''AN''\<rparr>"
  let ?e = "state_ready\<lparr>isSearchFocused := True, searchText := ''''\<rparr>"
  let ?k = "state_ready\<lparr>isSearchFocused := True, searchText := ''kiwi''\<rparr>"
  have f: "isSearchFocused ?an" "isSearchFocused ?e" "isSearchFocused ?k" "\<not> isSearchFocused state_ready"
    by (simp_all add: state_ready_def)
  have t: "searchText ?e = ''''" "searchText ?k = ''kiwi''" "searchText ?an = ''AN''" by simp_all
  have an: "filter (\<lambda>p. contains_ci (label p) ''AN'') PRODUCE_sample =
     [\<lparr>value' = ''banana'', label = ''Banana'', icon = ''B''\<rparr>]" by code_simp
  have k: "\<forall>p\<in>set PRODUCE_sample. \<not> contains_ci (label p) ''kiwi''" by code_simp
  from f t an filteredProduce_spec [of PRODUCE_sample ?an]
  have r1: "filteredProduce PRODUCE_sample ?an =
     [\<lparr>value' = ''banana'', label = ''Banana'', icon = ''B''\<rparr>]" by simp
  from f t filteredProduce_spec [of PRODUCE_sample ?e]
  have r2: "filteredProduce PRODUCE_sample ?e = PRODUCE_sample" by blast
  from f t k filteredProduce_spec [of PRODUCE_sample ?k]
  have r3: "filteredProduce PRODUCE_sample ?k = []" by simp
  from f filteredProduce_spec [of PRODUCE_sample state_ready]
  have r4: "filteredProduce PRODUCE_sample state_ready = []" by simp
  from f t k r1 r2 r3 r4 show ?thesis by blast
qed


subsection \<open>Days text\<close>

text \<open>
  The digits \<open>decimal\<close> writes read back as the number, and they are a whole number
  without a leading zero.
\<close>

lemma digit_cases:
  "k < 10 \<Longrightarrow> k = 0 \<or> k = 1 \<or> k = 2 \<or> k = 3 \<or> k = 4 \<or> k = 5 \<or> k = 6 \<or> k = 7 \<or> k = 8 \<or> k = (9::nat)"
  by arith

lemma digit_value_digit: "k < 10 \<Longrightarrow> digit_value (digit k) = Some k"
  by (drule digit_cases) (auto simp: digit_def digit_value_def)

lemma digit_not_minus: "k < 10 \<Longrightarrow> digit k \<noteq> CHR ''-''"
  by (drule digit_cases) (auto simp: digit_def)

lemma digit_zero: "k < 10 \<Longrightarrow> digit k = CHR ''0'' \<Longrightarrow> k = 0"
  by (drule digit_cases) (auto simp: digit_def)

lemma digits_value_append:
  "digits_value (xs @ ys) acc =
     (case digits_value xs acc of None \<Rightarrow> None | Some a \<Rightarrow> digits_value ys a)"
  by (induction xs arbitrary: acc) (auto split: option.splits)

lemma decimal_not_empty: "decimal n \<noteq> []"
  by (subst decimal.simps) simp

lemma digits_value_decimal: "digits_value (decimal n) 0 = Some n"
proof (induction n rule: decimal.induct)
  case (1 n)
  show ?case
  proof (cases "n < 10")
    case True
    then show ?thesis
      by (subst decimal.simps) (simp add: digit_value_digit)
  next
    case False
    with "1" have "digits_value (decimal (n div 10)) 0 = Some (n div 10)" by simp
    moreover have "digit_value (digit (n mod 10)) = Some (n mod 10)"
      by (simp add: digit_value_digit)
    ultimately show ?thesis using False
      by (subst decimal.simps) (simp add: digits_value_append)
  qed
qed

lemma hd_decimal: "\<exists>k<10. hd (decimal n) = digit k \<and> (k = 0 \<longrightarrow> n = 0)"
proof (induction n rule: decimal.induct)
  case (1 n)
  show ?case
  proof (cases "n < 10")
    case True
    then have "hd (decimal n) = digit n" by (subst decimal.simps) simp
    with True show ?thesis by blast
  next
    case False
    with "1" obtain k where k: "k < 10" "hd (decimal (n div 10)) = digit k"
      "k = 0 \<longrightarrow> n div 10 = 0" by blast
    from False have "n div 10 \<noteq> 0" by simp
    with k have "k \<noteq> 0" by blast
    moreover from False have "hd (decimal n) = hd (decimal (n div 10))"
      by (subst decimal.simps) (simp add: decimal_not_empty)
    ultimately show ?thesis using k by auto
  qed
qed

lemma decimal_zero: "decimal 0 = ''0''"
  by (subst decimal.simps) (simp add: digit_def)

lemma whole_number_decimal: "whole_number (decimal n) = Some n"
proof -
  obtain k where k: "k < 10" "hd (decimal n) = digit k" "k = 0 \<longrightarrow> n = 0"
    using hd_decimal by blast
  have "hd (decimal n) = CHR ''0'' \<longrightarrow> decimal n = ''0''"
  proof
    assume "hd (decimal n) = CHR ''0''"
    with k have "n = 0" by (auto dest: digit_zero)
    then show "decimal n = ''0''" by (simp add: decimal_zero)
  qed
  then show ?thesis
    by (auto simp: whole_number_def decimal_not_empty digits_value_decimal)
qed

lemma hd_decimal_not_minus: "hd (decimal n) \<noteq> CHR ''-''"
  using hd_decimal [of n] by (auto dest: digit_not_minus)

text \<open>
  A sign, a whole number, a point and a digit read back as the signed number of
  tenths.
\<close>

lemma one_decimal_value_text:
  assumes "f < 10"
  shows "one_decimal_value ((if neg then ''-'' else '''') @ decimal i @ ''.'' @ [digit f]) =
           Some ((if neg then - 1 else 1) * (real i + real f / 10))"
proof -
  let ?body = "decimal i @ ''.'' @ [digit f]"
  have len: "length ?body = length (decimal i) + 2" by simp
  have b: "\<not> length ?body < 3" using decimal_not_empty [of i] by (cases "decimal i") simp_all
  have p: "?body ! (length ?body - 2) = CHR ''.''" by (simp add: nth_append)
  have t: "take (length ?body - 2) ?body = decimal i" by simp
  have l: "last ?body = digit f" by simp
  have h: "hd ?body \<noteq> CHR ''-''"
    using hd_decimal_not_minus [of i] decimal_not_empty [of i] by simp
  have body: "one_decimal_value ?body = Some (real i + real f / 10)"
    using b h assms
    by (simp add: one_decimal_value_def Let_def whole_number_decimal digit_value_digit
          decimal_not_empty nth_append)
  have minus: "one_decimal_value (CHR ''-'' # ?body) = Some (- 1 * (real i + real f / 10))"
    using b assms
    by (simp add: one_decimal_value_def Let_def whole_number_decimal digit_value_digit
          decimal_not_empty nth_append)
  show ?thesis using body minus by (cases neg) simp_all
qed

text \<open>
  Below \<open>10^21\<close>, \<open>toFixed1\<close> writes its argument to one decimal place, whatever
  \<open>Number::toString\<close> does.
\<close>

lemma toFixed1_one_decimal_place:
  assumes "\<bar>x\<bar> < 10 ^ 21"
  shows "to_one_decimal_place x (toFixed1 toString (Finite x))"
proof -
  let ?n = "nat \<lfloor>\<bar>x\<bar> * 10 + 1 / 2\<rfloor>"
  have "0 \<le> \<lfloor>\<bar>x\<bar> * 10 + 1 / 2\<rfloor>" by simp
  then have n: "real ?n = of_int \<lfloor>\<bar>x\<bar> * 10 + 1 / 2\<rfloor>" by simp
  have lo: "of_int \<lfloor>\<bar>x\<bar> * 10 + 1 / 2\<rfloor> \<le> \<bar>x\<bar> * 10 + 1 / 2" by (rule of_int_floor_le)
  have hi: "\<bar>x\<bar> * 10 + 1 / 2 < of_int \<lfloor>\<bar>x\<bar> * 10 + 1 / 2\<rfloor> + 1" by linarith
  from n lo hi have near: "\<bar>real ?n / 10 - \<bar>x\<bar>\<bar> \<le> 1 / 20" by linarith
  have split: "real (?n div 10) + real (?n mod 10) / 10 = real ?n / 10"
  proof -
    have "real ?n = real (10 * (?n div 10) + ?n mod 10)" by simp
    also have "\<dots> = 10 * real (?n div 10) + real (?n mod 10)" by (simp only: of_nat_add of_nat_mult of_nat_numeral)
    finally show ?thesis by simp
  qed
  from assms have shape: "toFixed1 toString (Finite x) =
      (if x < 0 then ''-'' else '''') @ decimal (?n div 10) @ ''.'' @ [digit (?n mod 10)]"
    by (simp add: toFixed1_def Let_def)
  have "one_decimal_value (toFixed1 toString (Finite x)) =
      Some ((if x < 0 then - 1 else 1) * (real ?n / 10))"
    unfolding shape using one_decimal_value_text [of "?n mod 10" "x < 0" "?n div 10"]
    by (simp only: split)
  moreover have "\<bar>(if x < 0 then - 1 else 1) * (real ?n / 10) - x\<bar> \<le> 1 / 20"
  proof (cases "x < 0")
    case True
    with near have "\<bar>- (real ?n / 10) - x\<bar> \<le> 1 / 20" by linarith
    with True show ?thesis by simp
  next
    case False
    with near have "\<bar>real ?n / 10 - x\<bar> \<le> 1 / 20" by linarith
    with False show ?thesis by simp
  qed
  ultimately show ?thesis by (simp add: to_one_decimal_place_def)
qed

text \<open>
  Claim C8, as amended. For every finite days value of magnitude below \<open>10^21\<close>, the
  number in the days text is the value to one decimal place, and it is followed by
  " days" when the value exceeds 1, by " days (Ready!)" when it lies between 0 and 1
  inclusive, and by " days (Past Peak)" when it is negative; -2.0 renders
  "-2.0 days (Past Peak)", 0.5 renders "0.5 days (Ready!)" and 3.2 renders "3.2 days".
\<close>

theorem getDaysText_cases:
  assumes "\<bar>days\<bar> < 10 ^ 21"
  shows "to_one_decimal_place days (toFixed1 toString (Finite days)) \<and>
         (1 < days \<longrightarrow>
            getDaysText toString (Finite days) = toFixed1 toString (Finite days) @ '' days'') \<and>
         (0 \<le> days \<and> days \<le> 1 \<longrightarrow>
            getDaysText toString (Finite days) =
              toFixed1 toString (Finite days) @ '' days (Ready!)'') \<and>
         (days < 0 \<longrightarrow>
            getDaysText toString (Finite days) =
              toFixed1 toString (Finite days) @ '' days (Past Peak)'') \<and>
         getDaysText toString (Finite (- 2.0)) = ''-2.0 days (Past Peak)'' \<and>
         getDaysText toString (Finite 0.5) = ''0.5 days (Ready!)'' \<and>
         getDaysText toString (Finite 3.2) = ''3.2 days''"
proof -
  have ex: "getDaysText toString (Finite (- 2.0)) = ''-2.0 days (Past Peak)''"
    "getDaysText toString (Finite 0.5) = ''0.5 days (Ready!)''"
    "getDaysText toString (Finite 3.2) = ''3.2 days''"
    by (simp_all add: getDaysText_def toFixed1_def decimal.simps digit_def)
  have "1 < days \<longrightarrow>
      getDaysText toString (Finite days) = toFixed1 toString (Finite days) @ '' days''"
    by (simp add: getDaysText_def)
  moreover have "0 \<le> days \<and> days \<le> 1 \<longrightarrow>
      getDaysText toString (Finite days) = toFixed1 toString (Finite days) @ '' days (Ready!)''"
    by (simp add: getDaysText_def)
  moreover have "days < 0 \<longrightarrow>
      getDaysText toString (Finite days) = toFixed1 toString (Finite days) @ '' days (Past Peak)''"
    by (simp add: getDaysText_def)
  ultimately show ?thesis using ex toFixed1_one_decimal_place [OF assms] by blast
qed

text \<open>
  One value in each range, and one with several digits: 7.25, 1, -0.04 and 123456.78.
\<close>

theorem getDaysText_cases_witness:
  "\<bar>7.25 :: real\<bar> < 10 ^ 21 \<and> (1::real) < 7.25 \<and>
   getDaysText toString_sample (Finite 7.25) = ''7.3 days'' \<and>
   to_one_decimal_place 7.25 ''7.3'' \<and>
   \<bar>1 :: real\<bar> < 10 ^ 21 \<and> (0::real) \<le> 1 \<and> (1::real) \<le> 1 \<and>
   getDaysText toString_sample (Finite 1) = ''1.0 days (Ready!)'' \<and>
   \<bar>- 0.04 :: real\<bar> < 10 ^ 21 \<and> (- 0.04 :: real) < 0 \<and>
   getDaysText toString_sample (Finite (- 0.04)) = ''-0.0 days (Past Peak)'' \<and>
   \<bar>123456.78 :: real\<bar> < 10 ^ 21 \<and> (1::real) < 123456.78 \<and>
   getDaysText toString_sample (Finite 123456.78) = ''123456.8 days'' \<and>
   to_one_decimal_place 123456.78 ''123456.8''"
proof -
  have h: "\<bar>7.25 :: real\<bar> < 10 ^ 21" "\<bar>1 :: real\<bar> < 10 ^ 21" "\<bar>- 0.04 :: real\<bar> < 10 ^ 21"
    "\<bar>123456.78 :: real\<bar> < 10 ^ 21"
    by simp_all
  have c: "(1::real) < 7.25" "(0::real) \<le> 1" "(1::real) \<le> 1" "(- 0.04 :: real) < 0"
    "(1::real) < 123456.78"
    by simp_all
  have t: "toFixed1 toString_sample (Finite 7.25) = ''7.3''"
    "toFixed1 toString_sample (Finite 1) = ''1.0''"
    "toFixed1 toString_sample (Finite (- 0.04)) = ''-0.0''"
    "toFixed1 toString_sample (Finite 123456.78) = ''123456.8''"
    by (simp_all add: toFixed1_def decimal.simps digit_def)
  note a = getDaysText_cases [OF h(1), where toString = toString_sample]
  note b = getDaysText_cases [OF h(2), where toString = toString_sample]
  note m = getDaysText_cases [OF h(3), where toString = toString_sample]
  note l = getDaysText_cases [OF h(4), where toString = toString_sample]
  from a c t have a1: "getDaysText toString_sample (Finite 7.25) = ''7.3 days''"
    and a2: "to_one_decimal_place 7.25 ''7.3''" by simp_all
  from b c t have b1: "getDaysText toString_sample (Finite 1) = ''1.0 days (Ready!)''" by simp
  from m c t have m1: "getDaysText toString_sample (Finite (- 0.04)) = ''-0.0 days (Past Peak)''"
    by simp
  from l c t have l1: "getDaysText toString_sample (Finite 123456.78) = ''123456.8 days''"
    and l2: "to_one_decimal_place 123456.78 ''123456.8''" by simp_all
  from h c a1 a2 b1 m1 l1 l2 show ?thesis by blast
qed

text \<open>
  Claim C8 as stated (every numeric days value) fails. The response with
  \<open>"days": 1e999\<close> passes the check of line 118, its days value is \<open>Infinity\<close>, which
  exceeds 1, and the days text is "Infinity days": "Infinity" is not a value to one
  decimal place. The same holds at \<open>10^21\<close>, where \<open>toFixed\<close> hands over to
  \<open>Number::toString\<close> and the text is "1e+21 days".
\<close>

theorem getDaysText_infinite_counterexample:
  "getRipenessPrediction (TextJSON result_infinite_days) = Inr result_infinite_days \<and>
   property result_infinite_days ''days'' = Some (JNumber Infinity) \<and>
   gt Infinity 1 \<and>
   getDaysText toString_sample Infinity = ''Infinity days'' \<and>
   one_decimal_value ''Infinity'' = None \<and>
   gt (Finite (10 ^ 21)) 1 \<and>
   getDaysText toString_sample (Finite (10 ^ 21)) = ''1e+21 days'' \<and>
   one_decimal_value ''1e+21'' = None"
  by code_simp


subsection \<open>Runs of the controller\<close>

lemma run_Nil [simp]: "run s [] = s"
  by (simp add: run_def)

lemma run_Cons [simp]: "run s (e # es) = run (apply_effect s e) es"
  by (simp add: run_def)

lemma run_append [simp]: "run s (es @ fs) = run (run s es) fs"
  by (simp add: run_def)

lemma continueAnalysis_found:
  assumes "find (\<lambda>p. value' p = produceKey) PRODUCE = Some produce"
  shows "continueAnalysis PRODUCE produceKey b m w =
     [SetIsLoading True, SetError None, SetLoadingText ''Analyzing ripeness...'',
      CallGetRipenessPrediction b m (label produce)] @
     (case getRipenessPrediction (prediction_response w) of
        Inr result \<Rightarrow> [SetPrediction (Some result)]
      | Inl err \<Rightarrow> [SetError (Some
          ''Failed to complete analysis. The model may be unavailable. Please try again later.'')]) @
     [SetIsLoading False]"
  using assms by (simp add: continueAnalysis_def)

lemma continueAnalysis_loading_cleared:
  "isLoading (run s (continueAnalysis PRODUCE produceKey b m w)) = False"
  by (simp add: continueAnalysis_def split: option.splits sum.splits)

lemma startAnalysis_unmatched_trace:
  assumes "fileToAnalyze = Some file \<or> (fileToAnalyze = None \<and> imageFile s = Some file)"
    and "find (\<lambda>f. value' f = selectedProduceKey s) PRODUCE = Some produce"
    and "fileToBase64_result w = Some b"
    and "identifyProduce PRODUCE (identify_response w) = Inr ''''"
  shows "startAnalysis PRODUCE s fileToAnalyze w =
     [SetIsLoading True, SetPrediction None, SetError None, SetSuggestedProduceKey None,
      SetLoadingText ''Identifying produce...'', CallFileToBase64 file,
      CallIdentifyProduce b (type' file),
      SetIsLoading True, SetError None, SetLoadingText ''Analyzing ripeness...'',
      CallGetRipenessPrediction b (type' file) (label produce)] @
     (case getRipenessPrediction (prediction_response w) of
        Inr result \<Rightarrow> [SetPrediction (Some result)]
      | Inl err \<Rightarrow> [SetError (Some
          ''Failed to complete analysis. The model may be unavailable. Please try again later.'')]) @
     [SetIsLoading False]"
  using assms
  by (auto simp: startAnalysis_def resetAnalysisState_def continueAnalysis_found)

subsection \<open>Triggering the analysis\<close>

text \<open>
  Claim C6. When the analysis is triggered with no image (neither the argument nor the
  state holds a file) or with a selected key that names no catalog entry, the only
  effect is the error message asking for a produce item and an image: no gateway call
  is made, neither identification nor prediction, and the loading flag is not touched.
\<close>

theorem startAnalysis_missing_input:
  assumes "(fileToAnalyze = None \<and> imageFile s = None) \<or>
           find (\<lambda>f. value' f = selectedProduceKey s) PRODUCE = None"
  shows "startAnalysis PRODUCE s fileToAnalyze w =
           [SetError (Some ''Please select a produce item and an image first.'')] \<and>
         gateway_calls (startAnalysis PRODUCE s fileToAnalyze w) = [] \<and>
         filter is_set_loading (startAnalysis PRODUCE s fileToAnalyze w) = [] \<and>
         error (run s (startAnalysis PRODUCE s fileToAnalyze w)) =
           Some ''Please select a produce item and an image first.'' \<and>
         isLoading (run s (startAnalysis PRODUCE s fileToAnalyze w)) = isLoading s"
proof -
  from assms have "startAnalysis PRODUCE s fileToAnalyze w =
      [SetError (Some ''Please select a produce item and an image first.'')]"
    by (auto simp: startAnalysis_def split: option.splits)
  then show ?thesis
    by (simp add: gateway_calls_def is_gateway_call_def)
qed

text \<open>The ready state without its image, and the ready state with the unknown key \<open>kiwi\<close>.\<close>

theorem startAnalysis_missing_input_witness:
  "imageFile (state_ready\<lparr>imageFile := None\<rparr>) = None \<and>
   startAnalysis PRODUCE_sample (state_ready\<lparr>imageFile := None\<rparr>) None
      (world (Some ''QUJD'') (Some ''Apple'') (TextJSON result_ok)) =
     [SetError (Some ''Please select a produce item and an image first.'')] \<and>
   find (\<lambda>f. value' f = selectedProduceKey (state_ready\<lparr>selectedProduceKey := ''kiwi''\<rparr>))
     PRODUCE_sample = None \<and>
   startAnalysis PRODUCE_sample (state_ready\<lparr>selectedProduceKey := ''kiwi''\<rparr>) None
      (world (Some ''QUJD'') (Some ''Apple'') (TextJSON result_ok)) =
     [SetError (Some ''Please select a produce item and an image first.'')]"
proof -
  let ?w = "world (Some ''QUJD'') (Some ''Apple'') (TextJSON result_ok)"
  have a: "imageFile (state_ready\<lparr>imageFile := None\<rparr>) = None" by simp
  have b: "find (\<lambda>f. value' f = selectedProduceKey (state_ready\<lparr>selectedProduceKey := ''kiwi''\<rparr>))
     PRODUCE_sample = None" by (simp add: PRODUCE_sample_def)
  from a b
    startAnalysis_missing_input [of None "state_ready\<lparr>imageFile := None\<rparr>" PRODUCE_sample ?w]
    startAnalysis_missing_input [of None "state_ready\<lparr>selectedProduceKey := ''kiwi''\<rparr>" PRODUCE_sample ?w]
  show ?thesis by blast
qed

text \<open>
  Claim C5. When an analysis run (image present, selected produce in the catalog)
  gets \<open>None\<close> from the identification, whatever the state before, it ends with the
  message asking for another photo, no prediction, no pending suggestion and the loading
  flag cleared, and the only gateway call made is the identification.
\<close>

theorem startAnalysis_none_recognised:
  assumes "fileToAnalyze = Some file \<or> (fileToAnalyze = None \<and> imageFile s = Some file)"
    and "find (\<lambda>f. value' f = selectedProduceKey s) PRODUCE = Some produce"
    and "fileToBase64_result w = Some base64Image"
    and "identifyProduce PRODUCE (identify_response w) = Inr ''None''"
  shows "error (run s (startAnalysis PRODUCE s fileToAnalyze w)) =
           Some ''No recognizable fruit or vegetable was found. Please try another photo.'' \<and>
         prediction (run s (startAnalysis PRODUCE s fileToAnalyze w)) = None \<and>
         suggestedProduceKey (run s (startAnalysis PRODUCE s fileToAnalyze w)) = None \<and>
         isLoading (run s (startAnalysis PRODUCE s fileToAnalyze w)) = False \<and>
         prediction_calls (startAnalysis PRODUCE s fileToAnalyze w) = [] \<and>
         gateway_calls (startAnalysis PRODUCE s fileToAnalyze w) =
           [CallIdentifyProduce base64Image (type' file)]"
proof -
  from assms have "startAnalysis PRODUCE s fileToAnalyze w =
      [SetIsLoading True, SetPrediction None, SetError None, SetSuggestedProduceKey None,
       SetLoadingText ''Identifying produce...'', CallFileToBase64 file,
       CallIdentifyProduce base64Image (type' file),
       SetError (Some ''No recognizable fruit or vegetable was found. Please try another photo.''),
       SetIsLoading False]"
    by (auto simp: startAnalysis_def resetAnalysisState_def)
  then show ?thesis
    by (simp add: prediction_calls_def gateway_calls_def is_gateway_call_def)
qed

text \<open>The ready state, with the service answering " none ".\<close>

theorem startAnalysis_none_recognised_witness:
  "imageFile state_ready = Some photo \<and>
   find (\<lambda>f. value' f = selectedProduceKey state_ready) PRODUCE_sample =
     Some \<lparr>value' = ''apple'', label = ''Apple'', icon = ''A''\<rparr> \<and>
   identifyProduce PRODUCE_sample (Some '' none '') = Inr ''None'' \<and>
   error (run state_ready (startAnalysis PRODUCE_sample state_ready None
       (world (Some ''QUJD'') (Some '' none '') (TextJSON result_ok)))) =
     Some ''No recognizable fruit or vegetable was found. Please try another photo.'' \<and>
   prediction (run state_ready (startAnalysis PRODUCE_sample state_ready None
       (world (Some ''QUJD'') (Some '' none '') (TextJSON result_ok)))) = None \<and>
   isLoading (run state_ready (startAnalysis PRODUCE_sample state_ready None
       (world (Some ''QUJD'') (Some '' none '') (TextJSON result_ok)))) = False \<and>
   prediction_calls (startAnalysis PRODUCE_sample state_ready None
       (world (Some ''QUJD'') (Some '' none '') (TextJSON result_ok))) = []"
proof -
  let ?w = "world (Some ''QUJD'') (Some '' none '') (TextJSON result_ok)"
  let ?apple = "\<lparr>value' = ''apple'', label = ''Apple'', icon = ''A''\<rparr>"
  have h0: "imageFile state_ready = Some photo" by (simp add: state_ready_def)
  then have h1: "None = Some photo \<or> (None = None \<and> imageFile state_ready = Some photo)" by simp
  have h2: "find (\<lambda>f. value' f = selectedProduceKey state_ready) PRODUCE_sample = Some ?apple"
    by (simp add: state_ready_def PRODUCE_sample_def)
  have h3: "fileToBase64_result ?w = Some ''QUJD''" by (simp add: world_def)
  have i: "identifyProduce PRODUCE_sample (Some '' none '') = Inr ''None''" by code_simp
  then have h4: "identifyProduce PRODUCE_sample (identify_response ?w) = Inr ''None''"
    by (simp add: world_def)
  from h0 h2 i startAnalysis_none_recognised [OF h1 h2 h3 h4] show ?thesis by blast
qed

text \<open>
  Claim C1. When the identification of an analysis run returns a key \<open>k\<close> (not the
  \<open>None\<close> marker) that is non-empty and differs from the selected key, the run ends
  with \<open>k\<close> stored as the suggestion, the loading flag cleared, no error and no
  prediction, the selection unchanged, and no prediction call made.
\<close>

theorem startAnalysis_suggestion:
  assumes "fileToAnalyze = Some file \<or> (fileToAnalyze = None \<and> imageFile s = Some file)"
    and "find (\<lambda>f. value' f = selectedProduceKey s) PRODUCE = Some produce"
    and "fileToBase64_result w = Some base64Image"
    and "identifyProduce PRODUCE (identify_response w) = Inr k"
    and "k \<noteq> ''None''" and "k \<noteq> ''''" and "k \<noteq> selectedProduceKey s"
  shows "suggestedProduceKey (run s (startAnalysis PRODUCE s fileToAnalyze w)) = Some k \<and>
         isLoading (run s (startAnalysis PRODUCE s fileToAnalyze w)) = False \<and>
         error (run s (startAnalysis PRODUCE s fileToAnalyze w)) = None \<and>
         prediction (run s (startAnalysis PRODUCE s fileToAnalyze w)) = None \<and>
         selectedProduceKey (run s (startAnalysis PRODUCE s fileToAnalyze w)) = selectedProduceKey s \<and>
         prediction_calls (startAnalysis PRODUCE s fileToAnalyze w) = []"
proof -
  from assms have "startAnalysis PRODUCE s fileToAnalyze w =
      [SetIsLoading True, SetPrediction None, SetError None, SetSuggestedProduceKey None,
       SetLoadingText ''Identifying produce...'', CallFileToBase64 file,
       CallIdentifyProduce base64Image (type' file),
       SetSuggestedProduceKey (Some k), SetIsLoading False]"
    by (auto simp: startAnalysis_def resetAnalysisState_def)
  then show ?thesis
    by (simp add: prediction_calls_def)
qed

text \<open>The ready state with \<open>apple\<close> selected, the service answering "Banana".\<close>

theorem startAnalysis_suggestion_witness:
  "imageFile state_ready = Some photo \<and>
   find (\<lambda>f. value' f = selectedProduceKey state_ready) PRODUCE_sample =
     Some \<lparr>value' = ''apple'', label = ''Apple'', icon = ''A''\<rparr> \<and>
   identifyProduce PRODUCE_sample (Some ''Banana'') = Inr ''banana'' \<and>
   ''banana'' \<noteq> selectedProduceKey state_ready \<and>
   suggestedProduceKey (run state_ready (startAnalysis PRODUCE_sample state_ready None
       (world (Some ''QUJD'') (Some ''Banana'') (TextJSON result_ok)))) = Some ''banana'' \<and>
   isLoading (run state_ready (startAnalysis PRODUCE_sample state_ready None
       (world (Some ''QUJD'') (Some ''Banana'') (TextJSON result_ok)))) = False \<and>
   error (run state_ready (startAnalysis PRODUCE_sample state_ready None
       (world (Some ''QUJD'') (Some ''Banana'') (TextJSON result_ok)))) = None \<and>
   prediction_calls (startAnalysis PRODUCE_sample state_ready None
       (world (Some ''QUJD'') (Some ''Banana'') (TextJSON result_ok))) = []"
proof -
  let ?w = "world (Some ''QUJD'') (Some ''Banana'') (TextJSON result_ok)"
  let ?apple = "\<lparr>value' = ''apple'', label = ''Apple'', icon = ''A''\<rparr>"
  have h0: "imageFile state_ready = Some photo" by (simp add: state_ready_def)
  then have h1: "None = Some photo \<or> (None = None \<and> imageFile state_ready = Some photo)" by simp
  have h2: "find (\<lambda>f. value' f = selectedProduceKey state_ready) PRODUCE_sample = Some ?apple"
    by (simp add: state_ready_def PRODUCE_sample_def)
  have h3: "fileToBase64_result ?w = Some ''QUJD''" by (simp add: world_def)
  have i: "identifyProduce PRODUCE_sample (Some ''Banana'') = Inr ''banana''" by code_simp
  then have h4: "identifyProduce PRODUCE_sample (identify_response ?w) = Inr ''banana''"
    by (simp add: world_def)
  have h5: "''banana'' \<noteq> ''None''" and h6: "''banana'' \<noteq> ''''" by simp_all
  have h7: "''banana'' \<noteq> selectedProduceKey state_ready" by (simp add: state_ready_def)
  from h0 h2 i h7 startAnalysis_suggestion [OF h1 h2 h3 h4 h5 h6 h7] show ?thesis by blast
qed

text \<open>
  Claim C10. When the answer of the identification, surrounding white space removed as
  line 27 does, is not "none" in any letter case and no catalog label contains it
  case-insensitively, \<open>identifyProduce\<close> returns the empty string and the run goes
  straight on to the prediction call with the label of the selected produce: no
  suggestion is raised anywhere in the run, no error has been shown and no suggestion
  is pending when the prediction call is made, the selection is unchanged, and a
  successful prediction is stored with no error.
\<close>

theorem startAnalysis_unmatched_answer:
  assumes "fileToAnalyze = Some file \<or> (fileToAnalyze = None \<and> imageFile s = Some file)"
    and "find (\<lambda>f. value' f = selectedProduceKey s) PRODUCE = Some produce"
    and "fileToBase64_result w = Some b"
    and "identify_response w = Some text"
    and "toLowerCase (trim text) \<noteq> ''none''"
    and "\<forall>p\<in>set PRODUCE. \<not> contains_ci (label p) (trim text)"
  shows "identifyProduce PRODUCE (identify_response w) = Inr '''' \<and>
         gateway_calls (startAnalysis PRODUCE s fileToAnalyze w) =
           [CallIdentifyProduce b (type' file),
            CallGetRipenessPrediction b (type' file) (label produce)] \<and>
         filter raises_suggestion (startAnalysis PRODUCE s fileToAnalyze w) = [] \<and>
         filter shows_error (before_prediction_call (startAnalysis PRODUCE s fileToAnalyze w)) = [] \<and>
         error (run s (before_prediction_call (startAnalysis PRODUCE s fileToAnalyze w))) = None \<and>
         suggestedProduceKey (run s (before_prediction_call (startAnalysis PRODUCE s fileToAnalyze w))) = None \<and>
         selectedProduceKey (run s (before_prediction_call (startAnalysis PRODUCE s fileToAnalyze w))) =
           selectedProduceKey s \<and>
         suggestedProduceKey (run s (startAnalysis PRODUCE s fileToAnalyze w)) = None \<and>
         selectedProduceKey (run s (startAnalysis PRODUCE s fileToAnalyze w)) = selectedProduceKey s \<and>
         (\<forall>r. getRipenessPrediction (prediction_response w) = Inr r \<longrightarrow>
            error (run s (startAnalysis PRODUCE s fileToAnalyze w)) = None \<and>
            prediction (run s (startAnalysis PRODUCE s fileToAnalyze w)) = Some r)"
proof -
  let ?P = "\<lambda>p. includes' (toLowerCase (label p)) (toLowerCase (trim text))"
  from assms(6) have "find ?P PRODUCE = None"
    by (simp add: find_None_none contains_ci_includes)
  with assms(4,5) have id: "identifyProduce PRODUCE (identify_response w) = Inr ''''"
    by (simp add: identifyProduce_def)
  note tr = startAnalysis_unmatched_trace [OF assms(1) assms(2) assms(3) id]
  show ?thesis
    by (simp add: id tr gateway_calls_def is_gateway_call_def before_prediction_call_def
          split: sum.splits)
qed

text \<open>The ready state with \<open>apple\<close> selected, the service answering "Durian".\<close>

theorem startAnalysis_unmatched_answer_witness:
  "imageFile state_ready = Some photo \<and>
   find (\<lambda>f. value' f = selectedProduceKey state_ready) PRODUCE_sample =
     Some \<lparr>value' = ''apple'', label = ''Apple'', icon = ''A''\<rparr> \<and>
   toLowerCase (trim ''Durian'') \<noteq> ''none'' \<and>
   \<not> (\<exists>p\<in>set PRODUCE_sample. contains_ci (label p) (trim ''Durian'')) \<and>
   gateway_calls (startAnalysis PRODUCE_sample state_ready None
       (world (Some ''QUJD'') (Some ''Durian'') (TextJSON result_ok))) =
     [CallIdentifyProduce ''QUJD'' ''image/jpeg'',
      CallGetRipenessPrediction ''QUJD'' ''image/jpeg'' ''Apple''] \<and>
   suggestedProduceKey (run state_ready (startAnalysis PRODUCE_sample state_ready None
       (world (Some ''QUJD'') (Some ''Durian'') (TextJSON result_ok)))) = None \<and>
   getRipenessPrediction (TextJSON result_ok) = Inr result_ok \<and>
   error (run state_ready (startAnalysis PRODUCE_sample state_ready None
       (world (Some ''QUJD'') (Some ''Durian'') (TextJSON result_ok)))) = None \<and>
   prediction (run state_ready (startAnalysis PRODUCE_sample state_ready None
       (world (Some ''QUJD'') (Some ''Durian'') (TextJSON result_ok)))) = Some result_ok"
proof -
  let ?w = "world (Some ''QUJD'') (Some ''Durian'') (TextJSON result_ok)"
  let ?apple = "\<lparr>value' = ''apple'', label = ''Apple'', icon = ''A''\<rparr>"
  have h0: "imageFile state_ready = Some photo" by (simp add: state_ready_def)
  then have h1: "None = Some photo \<or> (None = None \<and> imageFile state_ready = Some photo)" by simp
  have h2: "find (\<lambda>f. value' f = selectedProduceKey state_ready) PRODUCE_sample = Some ?apple"
    by (simp add: state_ready_def PRODUCE_sample_def)
  have h3: "fileToBase64_result ?w = Some ''QUJD''" by (simp add: world_def)
  have h4: "identify_response ?w = Some ''Durian''" by (simp add: world_def)
  have h5: "toLowerCase (trim ''Durian'') \<noteq> ''none''" by code_simp
  have h6: "\<forall>p\<in>set PRODUCE_sample. \<not> contains_ci (label p) (trim ''Durian'')" by code_simp
  have g: "getRipenessPrediction (TextJSON result_ok) = Inr result_ok" by code_simp
  then have g': "getRipenessPrediction (prediction_response ?w) = Inr result_ok"
    by (simp add: world_def)
  have t: "type' photo = ''image/jpeg''" "label ?apple = ''Apple''" by (simp_all add: photo_def)
  note r = startAnalysis_unmatched_answer [OF h1 h2 h3 h4 h5 h6]
  from r g' have e: "error (run state_ready (startAnalysis PRODUCE_sample state_ready None ?w)) = None"
    and p: "prediction (run state_ready (startAnalysis PRODUCE_sample state_ready None ?w)) =
      Some result_ok"
    by blast+
  from r t have c: "gateway_calls (startAnalysis PRODUCE_sample state_ready None ?w) =
     [CallIdentifyProduce ''QUJD'' ''image/jpeg'',
      CallGetRipenessPrediction ''QUJD'' ''image/jpeg'' ''Apple'']" by simp
  from r have sg: "suggestedProduceKey (run state_ready
     (startAnalysis PRODUCE_sample state_ready None ?w)) = None" by blast
  from h0 h2 h5 h6 g e p c sg show ?thesis by blast
qed

subsection \<open>Answering a suggestion\<close>

text \<open>
  Claim C2. In a state with an image and a pending suggestion \<open>k\<close> (non-empty, and
  both \<open>k\<close> and the selected key name catalog entries, as \<open>startAnalysis\<close> leaves
  them), once the image has been encoded again: confirming makes the one prediction
  call with the label of the suggested produce, and at the moment of that call the
  selected key is already \<open>k\<close> and the suggestion is cleared; declining makes the one
  prediction call with the label of the originally selected produce, the selected key
  unchanged at the call and after it, the suggestion cleared before the call.
\<close>

theorem handleSuggestion_confirm_decline:
  assumes "imageFile s = Some file"
    and "suggestedProduceKey s = Some k" and "k \<noteq> ''''"
    and "find (\<lambda>p. value' p = k) PRODUCE = Some suggested"
    and "find (\<lambda>p. value' p = selectedProduceKey s) PRODUCE = Some selected"
    and "fileToBase64_result w = Some b"
  shows "handleSuggestion PRODUCE s True w =
           ([SetSelectedProduceKey k, SetSuggestedProduceKey None, CallFileToBase64 file] @
            continueAnalysis PRODUCE k b (type' file) w, Resolved) \<and>
         prediction_calls (fst (handleSuggestion PRODUCE s True w)) =
           [CallGetRipenessPrediction b (type' file) (label suggested)] \<and>
         selectedProduceKey (run s (before_prediction_call (fst (handleSuggestion PRODUCE s True w)))) = k \<and>
         suggestedProduceKey (run s (before_prediction_call (fst (handleSuggestion PRODUCE s True w)))) = None \<and>
         selectedProduceKey (run s (fst (handleSuggestion PRODUCE s True w))) = k \<and>
         suggestedProduceKey (run s (fst (handleSuggestion PRODUCE s True w))) = None \<and>
         handleSuggestion PRODUCE s False w =
           ([SetSuggestedProduceKey None, CallFileToBase64 file] @
            continueAnalysis PRODUCE (selectedProduceKey s) b (type' file) w, Resolved) \<and>
         prediction_calls (fst (handleSuggestion PRODUCE s False w)) =
           [CallGetRipenessPrediction b (type' file) (label selected)] \<and>
         selectedProduceKey (run s (before_prediction_call (fst (handleSuggestion PRODUCE s False w)))) =
           selectedProduceKey s \<and>
         suggestedProduceKey (run s (before_prediction_call (fst (handleSuggestion PRODUCE s False w)))) = None \<and>
         selectedProduceKey (run s (fst (handleSuggestion PRODUCE s False w))) = selectedProduceKey s \<and>
         suggestedProduceKey (run s (fst (handleSuggestion PRODUCE s False w))) = None"
proof -
  from assms have yes: "handleSuggestion PRODUCE s True w =
      ([SetSelectedProduceKey k, SetSuggestedProduceKey None, CallFileToBase64 file] @
       continueAnalysis PRODUCE k b (type' file) w, Resolved)"
    by (simp add: handleSuggestion_def)
  from assms have no: "handleSuggestion PRODUCE s False w =
      ([SetSuggestedProduceKey None, CallFileToBase64 file] @
       continueAnalysis PRODUCE (selectedProduceKey s) b (type' file) w, Resolved)"
    by (simp add: handleSuggestion_def)
  show ?thesis
    unfolding yes no continueAnalysis_found [OF assms(4)] continueAnalysis_found [OF assms(5)]
    by (simp add: prediction_calls_def before_prediction_call_def split: sum.splits)
qed

text \<open>The pending state: \<open>apple\<close> selected, \<open>banana\<close> suggested.\<close>

theorem handleSuggestion_confirm_decline_witness:
  "imageFile state_pending = Some photo \<and>
   suggestedProduceKey state_pending = Some ''banana'' \<and>
   find (\<lambda>p. value' p = ''banana'') PRODUCE_sample =
     Some \<lparr>value' = ''banana'', label = ''Banana'', icon = ''B''\<rparr> \<and>
   find (\<lambda>p. value' p = selectedProduceKey state_pending) PRODUCE_sample =
     Some \<lparr>value' = ''apple'', label = ''Apple'', icon = ''A''\<rparr> \<and>
   prediction_calls (fst (handleSuggestion PRODUCE_sample state_pending True
       (world (Some ''QUJD'') None (TextJSON result_ok)))) =
     [CallGetRipenessPrediction ''QUJD'' ''image/jpeg'' ''Banana''] \<and>
   selectedProduceKey (run state_pending (fst (handleSuggestion PRODUCE_sample state_pending True
       (world (Some ''QUJD'') None (TextJSON result_ok))))) = ''banana'' \<and>
   prediction_calls (fst (handleSuggestion PRODUCE_sample state_pending False
       (world (Some ''QUJD'') None (TextJSON result_ok)))) =
     [CallGetRipenessPrediction ''QUJD'' ''image/jpeg'' ''Apple''] \<and>
   selectedProduceKey (run state_pending (fst (handleSuggestion PRODUCE_sample state_pending False
       (world (Some ''QUJD'') None (TextJSON result_ok))))) = ''apple''"
proof -
  let ?w = "world (Some ''QUJD'') None (TextJSON result_ok)"
  let ?apple = "\<lparr>value' = ''apple'', label = ''Apple'', icon = ''A''\<rparr>"
  let ?banana = "\<lparr>value' = ''banana'', label = ''Banana'', icon = ''B''\<rparr>"
  have h1: "imageFile state_pending = Some photo"
    by (simp add: state_pending_def state_ready_def)
  have h2: "suggestedProduceKey state_pending = Some ''banana''"
    by (simp add: state_pending_def)
  have h3: "''banana'' \<noteq> ''''" by simp
  have h4: "find (\<lambda>p. value' p = ''banana'') PRODUCE_sample = Some ?banana"
    by (simp add: PRODUCE_sample_def)
  have h5: "find (\<lambda>p. value' p = selectedProduceKey state_pending) PRODUCE_sample = Some ?apple"
    by (simp add: state_pending_def state_ready_def PRODUCE_sample_def)
  have h6: "fileToBase64_result ?w = Some ''QUJD''" by (simp add: world_def)
  have t: "type' photo = ''image/jpeg''" "label ?apple = ''Apple''" "label ?banana = ''Banana''"
    "selectedProduceKey state_pending = ''apple''"
    by (simp_all add: photo_def state_pending_def state_ready_def)
  note r = handleSuggestion_confirm_decline [OF h1 h2 h3 h4 h5 h6]
  from r have "prediction_calls (fst (handleSuggestion PRODUCE_sample state_pending True ?w)) =
      [CallGetRipenessPrediction ''QUJD'' (type' photo) (label ?banana)]" by blast
  with t have c1: "prediction_calls (fst (handleSuggestion PRODUCE_sample state_pending True ?w)) =
      [CallGetRipenessPrediction ''QUJD'' ''image/jpeg'' ''Banana'']" by simp
  from r have "prediction_calls (fst (handleSuggestion PRODUCE_sample state_pending False ?w)) =
      [CallGetRipenessPrediction ''QUJD'' (type' photo) (label ?apple)]" by blast
  with t have c2: "prediction_calls (fst (handleSuggestion PRODUCE_sample state_pending False ?w)) =
      [CallGetRipenessPrediction ''QUJD'' ''image/jpeg'' ''Apple'']" by simp
  from r have s1: "selectedProduceKey (run state_pending
      (fst (handleSuggestion PRODUCE_sample state_pending True ?w))) = ''banana''" by blast
  from r have "selectedProduceKey (run state_pending
      (fst (handleSuggestion PRODUCE_sample state_pending False ?w))) =
      selectedProduceKey state_pending" by blast
  with t have s2: "selectedProduceKey (run state_pending
      (fst (handleSuggestion PRODUCE_sample state_pending False ?w))) = ''apple''" by simp
  from h1 h2 h4 h5 c1 c2 s1 s2 show ?thesis by blast
qed


subsection \<open>Validation of the prediction response\<close>

text \<open>
  The check of line 118 accepts exactly the values that meet the top level of the
  schema, and every value that meets the whole schema meets its top level.
\<close>

lemma typeof_number: "typeof v = T_number \<longleftrightarrow> is_number v"
  by (induction v rule: typeof.induct) simp_all

lemma typeof_string: "typeof v = T_string \<longleftrightarrow> is_string v"
  by (induction v rule: typeof.induct) simp_all

lemma typeof_boolean: "typeof v = T_boolean \<longleftrightarrow> is_boolean v"
  by (induction v rule: typeof.induct) simp_all

lemma typeof_object: "typeof v = T_object \<longleftrightarrow> is_object_like v"
  by (induction v rule: typeof.induct) simp_all

lemma getRipenessPrediction_accepts:
  "getRipenessPrediction (TextJSON result) =
     (if top_level_schema result then Inr result
      else Inl (Error ''Failed to get prediction from Gemini API.''))"
  by (cases result)
     (simp_all add: getRipenessPrediction_def invalid_structure_def typeof_number
        typeof_string typeof_boolean typeof_object)

lemma infection_details_object_like: "infection_details_schema v \<Longrightarrow> is_object_like v"
  by (induction v rule: infection_details_schema.induct) simp_all

lemma required_schema_top_level: "required_schema result \<Longrightarrow> top_level_schema result"
proof (cases result)
  case (JObject kvs)
  assume "required_schema result"
  with JObject have r: "is_number (map_of kvs ''days'')" "is_string (map_of kvs ''status'')"
    "is_string (map_of kvs ''recommendation'')"
    "infection_details_schema (map_of kvs ''infection_details'')"
    "is_boolean (map_of kvs ''isPartlyMissing'')"
    "is_string (map_of kvs ''missingPartDescription'')"
    by simp_all
  from r(4) have "is_object_like (map_of kvs ''infection_details'')"
    by (rule infection_details_object_like)
  with r JObject show ?thesis by simp
qed simp_all

text \<open>
  Claim C3, as amended. When the response parses to a value that fails the top level
  of the schema (a top-level field missing or of the wrong type, where for
  \<open>infection_details\<close> only numbers, strings, booleans and absence are wrong),
  \<open>getRipenessPrediction\<close> fails, with the same error as for a rejected call, and
  \<open>continueAnalysis\<close> stores no prediction: the stored prediction is unchanged, an
  error message is set (the analysis-failure message when the produce key is in the
  catalog) and the loading flag is cleared.
\<close>

theorem getRipenessPrediction_rejects_top_level:
  assumes "\<not> top_level_schema result"
    and "prediction_response w = TextJSON result"
  shows "getRipenessPrediction (TextJSON result) =
           Inl (Error ''Failed to get prediction from Gemini API.'') \<and>
         getRipenessPrediction (TextJSON result) = getRipenessPrediction CallRejected \<and>
         filter stores_prediction (continueAnalysis PRODUCE produceKey b m w) = [] \<and>
         prediction (run s (continueAnalysis PRODUCE produceKey b m w)) = prediction s \<and>
         error (run s (continueAnalysis PRODUCE produceKey b m w)) \<noteq> None \<and>
         isLoading (run s (continueAnalysis PRODUCE produceKey b m w)) = False \<and>
         (\<forall>produce. find (\<lambda>p. value' p = produceKey) PRODUCE = Some produce \<longrightarrow>
            error (run s (continueAnalysis PRODUCE produceKey b m w)) = Some
              ''Failed to complete analysis. The model may be unavailable. Please try again later.'')"
proof -
  from assms(1) have g: "getRipenessPrediction (TextJSON result) =
      Inl (Error ''Failed to get prediction from Gemini API.'')"
    by (simp add: getRipenessPrediction_accepts)
  have c: "getRipenessPrediction CallRejected =
      Inl (Error ''Failed to get prediction from Gemini API.'')"
    by (simp add: getRipenessPrediction_def)
  from g assms(2) have e: "continueAnalysis PRODUCE produceKey b m w =
     (case find (\<lambda>p. value' p = produceKey) PRODUCE of
        None \<Rightarrow> [SetError (Some ''Invalid produce selected for analysis.''), SetIsLoading False]
      | Some produce \<Rightarrow>
          [SetIsLoading True, SetError None, SetLoadingText ''Analyzing ripeness...'',
           CallGetRipenessPrediction b m (label produce),
           SetError (Some
             ''Failed to complete analysis. The model may be unavailable. Please try again later.''),
           SetIsLoading False])"
    by (simp add: continueAnalysis_def split: option.splits)
  show ?thesis
    by (simp add: g c e split: option.splits)
qed

text \<open>A response without \<open>status\<close>, in the ready state.\<close>

theorem getRipenessPrediction_rejects_top_level_witness:
  "\<not> top_level_schema result_no_status \<and>
   getRipenessPrediction (TextJSON result_no_status) =
     Inl (Error ''Failed to get prediction from Gemini API.'') \<and>
   find (\<lambda>p. value' p = ''apple'') PRODUCE_sample =
     Some \<lparr>value' = ''apple'', label = ''Apple'', icon = ''A''\<rparr> \<and>
   prediction (run state_ready (continueAnalysis PRODUCE_sample ''apple'' ''QUJD'' ''image/jpeg''
      (world (Some ''QUJD'') (Some ''Apple'') (TextJSON result_no_status)))) = None \<and>
   error (run state_ready (continueAnalysis PRODUCE_sample ''apple'' ''QUJD'' ''image/jpeg''
      (world (Some ''QUJD'') (Some ''Apple'') (TextJSON result_no_status)))) =
     Some ''Failed to complete analysis. The model may be unavailable. Please try again later.'' \<and>
   isLoading (run state_ready (continueAnalysis PRODUCE_sample ''apple'' ''QUJD'' ''image/jpeg''
      (world (Some ''QUJD'') (Some ''Apple'') (TextJSON result_no_status)))) = False"
proof -
  let ?w = "world (Some ''QUJD'') (Some ''Apple'') (TextJSON result_no_status)"
  have h1: "\<not> top_level_schema result_no_status" by code_simp
  have h2: "prediction_response ?w = TextJSON result_no_status" by (simp add: world_def)
  have f: "find (\<lambda>p. value' p = ''apple'') PRODUCE_sample =
     Some \<lparr>value' = ''apple'', label = ''Apple'', icon = ''A''\<rparr>"
    by (simp add: PRODUCE_sample_def)
  have p: "prediction state_ready = None" by (simp add: state_ready_def)
  note r = getRipenessPrediction_rejects_top_level
    [OF h1 h2, of PRODUCE_sample "''apple''" "''QUJD''" "''image/jpeg''" state_ready]
  from r f have e: "error (run state_ready (continueAnalysis PRODUCE_sample ''apple'' ''QUJD''
      ''image/jpeg'' ?w)) =
     Some ''Failed to complete analysis. The model may be unavailable. Please try again later.''"
    by blast
  from r p have q: "prediction (run state_ready (continueAnalysis PRODUCE_sample ''apple''
      ''QUJD'' ''image/jpeg'' ?w)) = None" by simp
  from h1 f r e q show ?thesis by blast
qed

text \<open>
  Claim C3 as stated fails twice. A response whose \<open>infection_details\<close> is the empty
  object violates the required schema, yet \<open>getRipenessPrediction\<close> returns it and the
  controller stores it as the prediction. A response without \<open>status\<close> is refused,
  but with the very error of a rejected call.
\<close>

theorem getRipenessPrediction_schema_counterexample:
  "\<not> required_schema result_no_details \<and>
   getRipenessPrediction (TextJSON result_no_details) = Inr result_no_details \<and>
   prediction (run state_ready (continueAnalysis PRODUCE_sample ''apple'' ''QUJD'' ''image/jpeg''
      (world (Some ''QUJD'') (Some ''Apple'') (TextJSON result_no_details)))) =
     Some result_no_details \<and>
   \<not> required_schema result_no_status \<and>
   getRipenessPrediction (TextJSON result_no_status) = getRipenessPrediction CallRejected"
  by code_simp

subsection \<open>Failures\<close>

text \<open>
  A suggestion raised by \<open>startAnalysis\<close> is a non-empty key of the catalog, and the
  selected key names a catalog entry then.
\<close>

lemma identifyProduce_key:
  assumes "identifyProduce PRODUCE response = Inr k" and "k \<noteq> ''None''" and "k \<noteq> ''''"
  shows "\<exists>p\<in>set PRODUCE. value' p = k"
  using assms
  by (auto simp: identifyProduce_def Let_def split: option.splits if_splits
        dest: find_Some_holds)

lemma continueAnalysis_raises_no_suggestion:
  "filter raises_suggestion (continueAnalysis PRODUCE produceKey b m w) = []"
  by (simp add: continueAnalysis_def split: option.splits sum.splits)

lemma startAnalysis_suggestion_in_catalog:
  assumes "SetSuggestedProduceKey (Some k) \<in> set (startAnalysis PRODUCE s fileToAnalyze w)"
  shows "k \<noteq> '''' \<and> (\<exists>p\<in>set PRODUCE. value' p = k) \<and>
         (\<exists>p\<in>set PRODUCE. value' p = selectedProduceKey s)"
proof -
  have no: "SetSuggestedProduceKey (Some k) \<notin> set (continueAnalysis PRODUCE key b m w)" for key b m
    by (simp add: continueAnalysis_def split: option.splits sum.splits)
  from assms no obtain produce where
    g: "find (\<lambda>f. value' f = selectedProduceKey s) PRODUCE = Some produce"
    and i: "identifyProduce PRODUCE (identify_response w) = Inr k"
    and k: "k \<noteq> ''None''" "k \<noteq> ''''"
    by (auto simp: startAnalysis_def resetAnalysisState_def startAnalysis_catch_def
          split: option.splits sum.splits if_splits)
  from g have "\<exists>p\<in>set PRODUCE. value' p = selectedProduceKey s"
    by (auto dest: find_Some_holds)
  with identifyProduce_key [OF i k] k show ?thesis by simp
qed

text \<open>
  Every run of \<open>startAnalysis\<close> past its guard and every run of
  \<open>continueAnalysis\<close> ends with the loading flag cleared; a failed encoding or
  identification call in \<open>startAnalysis\<close> and a failed prediction in
  \<open>continueAnalysis\<close> set their error message.
\<close>

lemma startAnalysis_loading_cleared:
  assumes "fileToAnalyze = Some file \<or> (fileToAnalyze = None \<and> imageFile s = Some file)"
    and "find (\<lambda>f. value' f = selectedProduceKey s) PRODUCE = Some produce"
  shows "isLoading (run s (startAnalysis PRODUCE s fileToAnalyze w)) = False"
  using assms
  by (auto simp: startAnalysis_def resetAnalysisState_def startAnalysis_catch_def
        continueAnalysis_loading_cleared split: option.splits sum.splits)

lemma startAnalysis_failure_caught:
  assumes "fileToAnalyze = Some file \<or> (fileToAnalyze = None \<and> imageFile s = Some file)"
    and "find (\<lambda>f. value' f = selectedProduceKey s) PRODUCE = Some produce"
    and "fileToBase64_result w = None \<or> identify_response w = None"
  shows "error (run s (startAnalysis PRODUCE s fileToAnalyze w)) =
           Some ''An AI error occurred during identification. Please try again.'' \<and>
         isLoading (run s (startAnalysis PRODUCE s fileToAnalyze w)) = False"
  using assms
  by (auto simp: startAnalysis_def resetAnalysisState_def startAnalysis_catch_def
        identifyProduce_def split: option.splits)

lemma continueAnalysis_failure_caught:
  assumes "find (\<lambda>p. value' p = produceKey) PRODUCE = Some produce"
    and "getRipenessPrediction (prediction_response w) = Inl err"
  shows "error (run s (continueAnalysis PRODUCE produceKey b m w)) = Some
           ''Failed to complete analysis. The model may be unavailable. Please try again later.'' \<and>
         isLoading (run s (continueAnalysis PRODUCE produceKey b m w)) = False"
  using assms by (simp add: continueAnalysis_found)

text \<open>
  In \<open>handleSuggestion\<close> a failed encoding is not caught: the promise rejects and no
  error message is set.
\<close>

lemma handleSuggestion_encoding_failure:
  assumes "imageFile s = Some file" and "fileToBase64_result w = None"
  shows "snd (handleSuggestion PRODUCE s useSuggestion w) = Rejected \<and>
         filter shows_error (fst (handleSuggestion PRODUCE s useSuggestion w)) = [] \<and>
         error (run s (fst (handleSuggestion PRODUCE s useSuggestion w))) = error s"
  using assms
  by (auto simp: handleSuggestion_def Let_def split: option.splits)

text \<open>
  Claim C7 at the failing input. In the pending state (\<open>apple\<close> selected, \<open>banana\<close>
  suggested, image present) the encoding of the image fails. Confirming and declining
  both end with the handler's promise rejected and no error message in the state, where
  the claim asks for the failure to be caught and turned into a message. The same
  failure in \<open>startAnalysis\<close> is caught and sets the identification-error message.
\<close>

theorem handleSuggestion_encoding_failure_uncaught:
  "handleSuggestion PRODUCE_sample state_pending True (world None None CallRejected) =
     ([SetSelectedProduceKey ''banana'', SetSuggestedProduceKey None, CallFileToBase64 photo],
      Rejected) \<and>
   error (run state_pending
     (fst (handleSuggestion PRODUCE_sample state_pending True (world None None CallRejected)))) = None \<and>
   handleSuggestion PRODUCE_sample state_pending False (world None None CallRejected) =
     ([SetSuggestedProduceKey None, CallFileToBase64 photo], Rejected) \<and>
   error (run state_pending
     (fst (handleSuggestion PRODUCE_sample state_pending False (world None None CallRejected)))) = None \<and>
   error (run state_ready
     (startAnalysis PRODUCE_sample state_ready None (world None None CallRejected))) =
     Some ''An AI error occurred during identification. Please try again.''"
  by (simp add: handleSuggestion_def startAnalysis_def startAnalysis_catch_def
        resetAnalysisState_def state_pending_def state_ready_def world_def PRODUCE_sample_def)

end
